theory Spec2Isabelle
  imports Main
begin

section \<open>JavaScript values as the strategy sees them\<close>

text \<open>
  The strategy of \<^verbatim>\<open>lib/passport-facebook-authcode/strategy.js\<close> reads properties of
  dynamically typed values, tests them for truthiness and hands them on unchanged. A value
  is one of the JavaScript primitives, an array, a plain object (its own properties in
  insertion order) or an error object. Numbers are only ever tested for truthiness, so a
  number is an integer or \<open>NaN\<close>.
\<close>

datatype exn = TypeError | SyntaxError

datatype jsval =
    JUndefined
  | JNull
  | JBool bool
  | JNum int
  | JNaN
  | JStr string
  | JArr "jsval list"
  | JObj "(string \<times> jsval) list"
  | JError exn
  | InternalOAuthError string jsval

text \<open>Truthiness, as \<^verbatim>\<open>if (v)\<close>, \<^verbatim>\<open>!v\<close>, \<^verbatim>\<open>a || b\<close> and \<^verbatim>\<open>a && b\<close> test it.\<close>

fun truthy :: "jsval \<Rightarrow> bool" where
  "truthy JUndefined = False"
| "truthy JNull = False"
| "truthy (JBool b) = b"
| "truthy (JNum n) = (n \<noteq> 0)"
| "truthy JNaN = False"
| "truthy (JStr s) = (s \<noteq> [])"
| "truthy (JArr xs) = True"
| "truthy (JObj ps) = True"
| "truthy (JError e) = True"
| "truthy (InternalOAuthError m cause) = True"

fun exn_name :: "exn \<Rightarrow> string" where
  "exn_name TypeError = ''TypeError''"
| "exn_name SyntaxError = ''SyntaxError''"

text \<open>
  Property read \<^verbatim>\<open>v.k\<close>, for the property names the strategy reads (\<^verbatim>\<open>error\<close>,
  \<^verbatim>\<open>code\<close>, \<^verbatim>\<open>redirectUri\<close>, \<^verbatim>\<open>id\<close>, \<^verbatim>\<open>name\<close>, \<^verbatim>\<open>family_name\<close>,
  \<^verbatim>\<open>given_name\<close>, \<^verbatim>\<open>email\<close>): reading a property of \<^verbatim>\<open>undefined\<close> or
  \<^verbatim>\<open>null\<close> throws a TypeError, a missing property reads as \<^verbatim>\<open>undefined\<close>.
\<close>

fun get_prop :: "jsval \<Rightarrow> string \<Rightarrow> exn + jsval" where
  "get_prop JUndefined k = Inl TypeError"
| "get_prop JNull k = Inl TypeError"
| "get_prop (JObj ps) k = Inr (case map_of ps k of None \<Rightarrow> JUndefined | Some v \<Rightarrow> v)"
| "get_prop (JError e) k = Inr (if k = ''name'' then JStr (exn_name e) else JUndefined)"
| "get_prop (InternalOAuthError m cause) k =
     Inr (if k = ''name'' then JStr ''InternalOAuthError'' else JUndefined)"
| "get_prop v k = Inr JUndefined"

text \<open>Property write \<^verbatim>\<open>o.k = v\<close> on the own properties of an object.\<close>

fun set_prop :: "(string \<times> jsval) list \<Rightarrow> string \<Rightarrow> jsval \<Rightarrow> (string \<times> jsval) list" where
  "set_prop [] k v = [(k, v)]"
| "set_prop ((k', v') # ps) k v =
     (if k' = k then (k, v) # ps else (k', v') # set_prop ps k v)"

text \<open>
  \<^verbatim>\<open>a.k || b.k\<close>: the right operand is only evaluated, and can only throw, when the
  left one is falsy.
\<close>

definition prop_or :: "jsval \<Rightarrow> jsval \<Rightarrow> string \<Rightarrow> exn + jsval" where
  "prop_or a b k =
     (case get_prop a k of
        Inl e \<Rightarrow> Inl e
      | Inr v \<Rightarrow> if truthy v then Inr v else get_prop b k)"

section \<open>Requests, collaborators and configuration\<close>

text \<open>The two fields of the inbound request that the strategy reads.\<close>

record request =
  query :: jsval
  body :: jsval

text \<open>The \<^verbatim>\<open>params\<close> object built by \<^verbatim>\<open>_exchangeAuthCode\<close>.\<close>

record params =
  grant_type :: string
  redirect_uri :: jsval

text \<open>
  \<^verbatim>\<open>_skipUserProfile\<close> is a plain value or a function. A function is given by its
  declared arity (\<^verbatim>\<open>.length\<close>), by what it returns when called with no arguments, and by
  the arguments \<^verbatim>\<open>(err, skip)\<close> with which it completes the callback when called with
  an access token and a callback (\<open>None\<close>: the callback is never invoked).
\<close>

datatype skip_setting =
    SkipValue jsval
  | SkipFunction nat jsval "jsval \<Rightarrow> (jsval \<times> jsval) option"

text \<open>
  A strategy instance: the OAuth2 client (\<^verbatim>\<open>_oauth2.getOAuthAccessToken\<close>,
  \<^verbatim>\<open>_oauth2.get\<close>), \<^verbatim>\<open>JSON.parse\<close>, and the configuration. Each asynchronous
  collaborator is a function from its arguments to the arguments of the one completion
  it makes, \<open>None\<close> when it never completes. \<^verbatim>\<open>JSON.parse\<close> returns \<open>None\<close> when it
  throws its SyntaxError. Collaborators do not throw synchronously.
\<close>

record strategy =
  getOAuthAccessToken :: "jsval \<Rightarrow> params \<Rightarrow> (jsval \<times> jsval \<times> jsval \<times> jsval) option"
  oauth2_get :: "string \<Rightarrow> jsval \<Rightarrow> (jsval \<times> jsval \<times> jsval) option"
  JSON_parse :: "jsval \<Rightarrow> jsval option"
  skipUserProfile :: skip_setting
  passReqToCallback :: jsval
  verify :: "request option \<Rightarrow> jsval \<Rightarrow> jsval \<Rightarrow> jsval \<Rightarrow> (jsval \<times> jsval \<times> jsval) option"

text \<open>The calls an attempt makes to its collaborators, in order.\<close>

datatype event =
    ExchangeCall jsval params
  | SkipCallAsync jsval
  | SkipCallSync
  | GetCall string jsval
  | VerifyCall "request option" jsval jsval jsval

fun is_exchange :: "event \<Rightarrow> bool" where
  "is_exchange (ExchangeCall c p) = True"
| "is_exchange e = False"

fun is_get :: "event \<Rightarrow> bool" where
  "is_get (GetCall u t) = True"
| "is_get e = False"

fun is_verify :: "event \<Rightarrow> bool" where
  "is_verify (VerifyCall r a b p) = True"
| "is_verify e = False"

text \<open>
  The terminal signal of an attempt: \<^verbatim>\<open>this.success(user, info)\<close>, \<^verbatim>\<open>this.fail(info)\<close>
  (\<^verbatim>\<open>this.fail()\<close> passes \<^verbatim>\<open>undefined\<close>), \<^verbatim>\<open>this.error(err)\<close>; an exception
  thrown out of \<^verbatim>\<open>authenticate\<close>; or no signal, when a collaborator never completes.
\<close>

datatype outcome =
    Success jsval jsval
  | Fail jsval
  | Error jsval
  | Threw exn
  | Pending

section \<open>The strategy\<close>

text \<open>\<^verbatim>\<open>_exchangeAuthCode(authCode, redirectUri, done)\<close>, lines 115 to 121.\<close>

definition exchangeAuthCode ::
  "strategy \<Rightarrow> jsval \<Rightarrow> jsval \<Rightarrow> (jsval \<times> jsval \<times> jsval \<times> jsval) option \<times> event list" where
  "exchangeAuthCode s authCode redirectUri =
     (let p = \<lparr>grant_type = ''authorization_code'', redirect_uri = redirectUri\<rparr>
      in (getOAuthAccessToken s authCode p, [ExchangeCall authCode p]))"

text \<open>The body of the \<^verbatim>\<open>try\<close> block of \<^verbatim>\<open>userProfile\<close> after the parse, lines 145 to 153.\<close>

definition make_profile :: "jsval \<Rightarrow> jsval \<Rightarrow> exn + jsval" where
  "make_profile json raw =
     (case get_prop json ''id'' of Inl e \<Rightarrow> Inl e | Inr jid \<Rightarrow>
     (case get_prop json ''name'' of Inl e \<Rightarrow> Inl e | Inr jname \<Rightarrow>
     (case get_prop json ''family_name'' of Inl e \<Rightarrow> Inl e | Inr jfamily \<Rightarrow>
     (case get_prop json ''given_name'' of Inl e \<Rightarrow> Inl e | Inr jgiven \<Rightarrow>
     (case get_prop json ''email'' of Inl e \<Rightarrow> Inl e | Inr jemail \<Rightarrow>
        (let profile = [(''provider'', JStr ''facebook'')];
             profile = set_prop profile ''id'' jid;
             profile = set_prop profile ''displayName'' jname;
             profile = set_prop profile ''name''
                         (JObj [(''familyName'', jfamily), (''givenName'', jgiven)]);
             profile = set_prop profile ''emails'' (JArr [JObj [(''value'', jemail)]]);
             profile = set_prop profile ''_raw'' raw;
             profile = set_prop profile ''_json'' json
         in Inr (JObj profile)))))))"

text \<open>
  \<^verbatim>\<open>userProfile(accessToken, done)\<close>, lines 138 to 160. The result is the pair
  \<^verbatim>\<open>(err, profile)\<close> passed to \<^verbatim>\<open>done\<close>, with the calls made.
\<close>

definition userProfile :: "strategy \<Rightarrow> jsval \<Rightarrow> (jsval \<times> jsval) option \<times> event list" where
  "userProfile s accessToken =
     (let url = ''https://graph.facebook.com/v2.2/me'' in
      case oauth2_get s url accessToken of
        None \<Rightarrow> (None, [GetCall url accessToken])
      | Some (err, raw, res) \<Rightarrow>
          if truthy err
          then (Some (InternalOAuthError ''failed to fetch user profile'' err, JUndefined),
                [GetCall url accessToken])
          else
            (case JSON_parse s raw of
               None \<Rightarrow> (Some (JError SyntaxError, JUndefined), [GetCall url accessToken])
             | Some json \<Rightarrow>
                 (case make_profile json raw of
                    Inl e \<Rightarrow> (Some (JError e, JUndefined), [GetCall url accessToken])
                  | Inr profile \<Rightarrow> (Some (JNull, profile), [GetCall url accessToken]))))"

text \<open>\<^verbatim>\<open>skipIt\<close> of \<^verbatim>\<open>_loadUserProfile\<close>: \<^verbatim>\<open>done(null)\<close>.\<close>

definition skipIt :: "(jsval \<times> jsval) option \<times> event list" where
  "skipIt = (Some (JNull, JUndefined), [])"

text \<open>\<^verbatim>\<open>_loadUserProfile(accessToken, done)\<close>, lines 170 to 192.\<close>

definition loadUserProfile :: "strategy \<Rightarrow> jsval \<Rightarrow> (jsval \<times> jsval) option \<times> event list" where
  "loadUserProfile s accessToken =
     (case skipUserProfile s of
        SkipFunction arity ret complete \<Rightarrow>
          if arity > 1
          then
            (case complete accessToken of
               None \<Rightarrow> (None, [SkipCallAsync accessToken])
             | Some (err, skip) \<Rightarrow>
                 if truthy err then (Some (err, JUndefined), [SkipCallAsync accessToken])
                 else if \<not> truthy skip
                 then (let (r, tr) = userProfile s accessToken
                       in (r, SkipCallAsync accessToken # tr))
                 else (fst skipIt, SkipCallAsync accessToken # snd skipIt))
          else
            (let skip = ret in
             if \<not> truthy skip
             then (let (r, tr) = userProfile s accessToken in (r, SkipCallSync # tr))
             else (fst skipIt, SkipCallSync # snd skipIt))
      | SkipValue v \<Rightarrow>
          (let skip = v in
           if \<not> truthy skip then userProfile s accessToken else skipIt))"

text \<open>The inner function \<^verbatim>\<open>verified(err, user, info)\<close>, lines 93 to 97.\<close>

definition verified :: "jsval \<Rightarrow> jsval \<Rightarrow> jsval \<Rightarrow> outcome" where
  "verified err user info =
     (if truthy err then Error err
      else if \<not> truthy user then Fail info
      else Success user info)"

text \<open>The callback given to \<^verbatim>\<open>_loadUserProfile\<close>, lines 90 to 104.\<close>

definition afterProfile ::
  "strategy \<Rightarrow> request \<Rightarrow> jsval \<Rightarrow> jsval \<Rightarrow> jsval \<Rightarrow> jsval \<Rightarrow> outcome \<times> event list" where
  "afterProfile s req accessToken refreshToken err profile =
     (if truthy err then (Fail err, [])
      else
        (let r = (if truthy (passReqToCallback s) then Some req else None) in
         case verify s r accessToken refreshToken profile of
           None \<Rightarrow> (Pending, [VerifyCall r accessToken refreshToken profile])
         | Some (verr, user, info) \<Rightarrow>
             (verified verr user info, [VerifyCall r accessToken refreshToken profile])))"

text \<open>The callback given to \<^verbatim>\<open>_exchangeAuthCode\<close>, lines 87 to 105.\<close>

definition afterExchange ::
  "strategy \<Rightarrow> request \<Rightarrow> jsval \<Rightarrow> jsval \<Rightarrow> jsval \<Rightarrow> outcome \<times> event list" where
  "afterExchange s req err accessToken refreshToken =
     (if truthy err then (Fail err, [])
      else
        (case loadUserProfile s accessToken of
           (None, tr) \<Rightarrow> (Pending, tr)
         | (Some (perr, profile), tr) \<Rightarrow>
             (let (out, tr') = afterProfile s req accessToken refreshToken perr profile
              in (out, tr @ tr'))))"

text \<open>The test of line 68, \<^verbatim>\<open>req.query && req.query.error\<close>.\<close>

definition error_indicator :: "request \<Rightarrow> bool" where
  "error_indicator req =
     (truthy (query req) \<and>
      (case get_prop (query req) ''error'' of Inl e \<Rightarrow> False | Inr v \<Rightarrow> truthy v))"

text \<open>\<^verbatim>\<open>authenticate(req, options)\<close>, lines 64 to 106.\<close>

definition authenticate :: "strategy \<Rightarrow> request \<Rightarrow> outcome \<times> event list" where
  "authenticate s req =
     (if error_indicator req then (Fail JUndefined, [])
      else if \<not> truthy (body req) then (Fail JUndefined, [])
      else
        (case prop_or (body req) (query req) ''code'' of
           Inl e \<Rightarrow> (Threw e, [])
         | Inr authCode \<Rightarrow>
             (case prop_or (body req) (query req) ''redirectUri'' of
                Inl e \<Rightarrow> (Threw e, [])
              | Inr redirectUri \<Rightarrow>
                  if \<not> truthy authCode then (Fail JUndefined, [])
                  else
                    (case exchangeAuthCode s authCode redirectUri of
                       (None, tr) \<Rightarrow> (Pending, tr)
                     | (Some (err, accessToken, refreshToken, results), tr) \<Rightarrow>
                         (let (out, tr') = afterExchange s req err accessToken refreshToken
                          in (out, tr @ tr'))))))"

section \<open>Shorthand and scenarios\<close>

text \<open>The identity endpoint, the exchange parameters and the optional request argument.\<close>

abbreviation (input) me_url :: string where
  "me_url \<equiv> ''https://graph.facebook.com/v2.2/me''"

abbreviation (input) code_params :: "jsval \<Rightarrow> params" where
  "code_params u \<equiv> \<lparr>grant_type = ''authorization_code'', redirect_uri = u\<rparr>"

abbreviation (input) req_arg :: "strategy \<Rightarrow> request \<Rightarrow> request option" where
  "req_arg s req \<equiv> (if truthy (passReqToCallback s) then Some req else None)"

text \<open>
  The identity-endpoint body of the scenarios, and the value \<^verbatim>\<open>JSON.parse\<close> gives for it.
\<close>

definition jane_body :: string where
  \<open>jane_body = ''{"id":"42","name":"Jane Doe","email":"jane@example.com"}''\<close>

definition jane_json :: jsval where
  "jane_json = JObj [(''id'', JStr ''42''), (''name'', JStr ''Jane Doe''),
                     (''email'', JStr ''jane@example.com'')]"

definition jane_profile :: jsval where
  "jane_profile =
     JObj [(''provider'', JStr ''facebook''),
           (''id'', JStr ''42''),
           (''displayName'', JStr ''Jane Doe''),
           (''name'', JObj [(''familyName'', JUndefined), (''givenName'', JUndefined)]),
           (''emails'', JArr [JObj [(''value'', JStr ''jane@example.com'')]]),
           (''_raw'', JStr jane_body),
           (''_json'', jane_json)]"

text \<open>
  \<^verbatim>\<open>JSON.parse\<close> on the three bodies the scenarios use: Jane's payload, the empty
  object, and a body that is not JSON.
\<close>

definition scenario_parse :: "jsval \<Rightarrow> jsval option" where
  "scenario_parse raw =
     (if raw = JStr jane_body then Some jane_json
      else if raw = JStr ''{}'' then Some (JObj [])
      else None)"

text \<open>
  A request carrying a code and a redirect URI in its body, and a strategy whose provider
  accepts the code \<^verbatim>\<open>AQDx\<close>, answers the identity endpoint with Jane's payload, and
  whose application accepts the user. The configuration is the default one: the profile
  is loaded and the request is not forwarded.
\<close>

definition scenario_request :: request where
  "scenario_request =
     \<lparr>query = JObj [],
      body = JObj [(''code'', JStr ''AQDx''),
                   (''redirectUri'', JStr ''https://app.example.com/cb'')]\<rparr>"

definition scenario_params :: params where
  "scenario_params = code_params (JStr ''https://app.example.com/cb'')"

definition scenario_strategy :: strategy where
  "scenario_strategy =
     \<lparr>getOAuthAccessToken =
        (\<lambda>c p. if c = JStr ''AQDx'' then Some (JNull, JStr ''A'', JStr ''B'', JObj [])
               else Some (JObj [(''statusCode'', JNum 400)], JUndefined, JUndefined, JUndefined)),
      oauth2_get = (\<lambda>u t. Some (JNull, JStr jane_body, JUndefined)),
      JSON_parse = scenario_parse,
      skipUserProfile = SkipValue (JBool False),
      passReqToCallback = JUndefined,
      verify = (\<lambda>rq a r prof. Some (JNull, JObj [(''id'', JNum 1)], JUndefined))\<rparr>"

text \<open>Variations of the request.\<close>

definition expired_request :: request where
  "expired_request = scenario_request\<lparr>body := JObj [(''code'', JStr ''expired'')]\<rparr>"

definition denied_request :: request where
  "denied_request = scenario_request\<lparr>query := JObj [(''error'', JStr ''access_denied'')]\<rparr>"

definition bodiless_request :: request where
  "bodiless_request = \<lparr>query = JObj [], body = JUndefined\<rparr>"

definition query_code_request :: request where
  "query_code_request =
     \<lparr>query = JObj [(''code'', JStr ''AQDx'')], body = JObj [(''state'', JStr ''xyz'')]\<rparr>"

definition no_code_request :: request where
  "no_code_request = \<lparr>query = JObj [], body = JObj [(''state'', JStr ''xyz'')]\<rparr>"

definition empty_code_request :: request where
  "empty_code_request =
     \<lparr>query = JObj [(''code'', JStr ''AQDx'')], body = JObj [(''code'', JStr [])]\<rparr>"

definition queryless_request :: request where
  "queryless_request = \<lparr>query = JUndefined, body = JObj []\<rparr>"

definition queryless_redirect_request :: request where
  "queryless_redirect_request =
     \<lparr>query = JUndefined, body = JObj [(''redirectUri'', JStr ''https://app.example.com/cb'')]\<rparr>"

definition queryless_full_request :: request where
  "queryless_full_request =
     \<lparr>query = JNull,
      body = JObj [(''code'', JStr ''AQDx''),
                   (''redirectUri'', JStr ''https://app.example.com/cb'')]\<rparr>"

definition queryless_code_request :: request where
  "queryless_code_request = \<lparr>query = JUndefined, body = JObj [(''code'', JStr ''AQDx'')]\<rparr>"

text \<open>Variations of the collaborators and of the configuration.\<close>

definition transport_failure_strategy :: strategy where
  "transport_failure_strategy =
     scenario_strategy\<lparr>oauth2_get := (\<lambda>u t. Some (JStr ''ECONNRESET'', JUndefined, JUndefined))\<rparr>"

definition unparsable_strategy :: strategy where
  "unparsable_strategy =
     scenario_strategy\<lparr>oauth2_get := (\<lambda>u t. Some (JNull, JStr ''<html>'', JUndefined))\<rparr>"

definition html_strategy :: strategy where
  "html_strategy =
     scenario_strategy\<lparr>oauth2_get := (\<lambda>u t. Some (JNull, JStr ''<html>oops</html>'', JUndefined))\<rparr>"



definition skip_error_strategy :: strategy where
  "skip_error_strategy =
     scenario_strategy\<lparr>skipUserProfile :=
       SkipFunction 2 JUndefined (\<lambda>t. Some (JStr ''lookup failed'', JUndefined))\<rparr>"

definition skip_timeout_strategy :: strategy where
  "skip_timeout_strategy =
     scenario_strategy\<lparr>skipUserProfile :=
       SkipFunction 2 JUndefined (\<lambda>t. Some (JStr ''timeout'', JUndefined))\<rparr>"

definition skip_true_strategy :: strategy where
  "skip_true_strategy = scenario_strategy\<lparr>skipUserProfile := SkipValue (JBool True)\<rparr>"

definition skip_sync_strategy :: strategy where
  "skip_sync_strategy =
     scenario_strategy\<lparr>skipUserProfile := SkipFunction 1 (JBool True) (\<lambda>t. None)\<rparr>"

definition skip_async_strategy :: strategy where
  "skip_async_strategy =
     scenario_strategy\<lparr>skipUserProfile :=
       SkipFunction 2 JUndefined (\<lambda>t. Some (JNull, JBool True))\<rparr>"

definition rejecting_strategy :: strategy where
  "rejecting_strategy =
     scenario_strategy\<lparr>verify :=
       (\<lambda>rq a r prof. Some (JNull, JBool False, JObj [(''message'', JStr ''denied'')]))\<rparr>"

definition erroring_strategy :: strategy where
  "erroring_strategy =
     scenario_strategy\<lparr>verify :=
       (\<lambda>rq a r prof. Some (JStr ''database down'', JUndefined, JUndefined))\<rparr>"

lemmas flow_defs = authenticate_def exchangeAuthCode_def afterExchange_def afterProfile_def
  loadUserProfile_def userProfile_def make_profile_def skipIt_def verified_def prop_or_def
  error_indicator_def

lemmas scenario_defs = scenario_strategy_def scenario_request_def scenario_parse_def
  scenario_params_def jane_profile_def jane_json_def jane_body_def

section \<open>The flow, one step at a time\<close>

text \<open>
  Each function of the strategy, restated as an equation on the signal and on the calls
  made, and what the presence of a call among the calls of an attempt tells.
\<close>

lemma userProfile_trace: "snd (userProfile s tok) = [GetCall me_url tok]"
  by (simp add: userProfile_def Let_def split: option.splits sum.splits prod.splits)

lemma loadUserProfile_eq:
  "loadUserProfile s a =
     (case skipUserProfile s of
        SkipFunction n ret complete \<Rightarrow>
          if n > 1 then
            (case complete a of
               None \<Rightarrow> (None, [SkipCallAsync a])
             | Some (err, skip) \<Rightarrow>
                 if truthy err then (Some (err, JUndefined), [SkipCallAsync a])
                 else if truthy skip then (Some (JNull, JUndefined), [SkipCallAsync a])
                 else (fst (userProfile s a), [SkipCallAsync a, GetCall me_url a]))
          else if truthy ret then (Some (JNull, JUndefined), [SkipCallSync])
          else (fst (userProfile s a), [SkipCallSync, GetCall me_url a])
      | SkipValue v \<Rightarrow>
          if truthy v then (Some (JNull, JUndefined), [])
          else (fst (userProfile s a), [GetCall me_url a]))"
  using userProfile_trace [of s a]
  by (cases "userProfile s a")
     (simp add: loadUserProfile_def skipIt_def Let_def split: skip_setting.splits option.splits prod.splits)

lemma afterProfile_eq:
  "afterProfile s req a r err prof =
     (if truthy err then (Fail err, [])
      else (case verify s (req_arg s req) a r prof of
              None \<Rightarrow> Pending
            | Some (verr, user, info) \<Rightarrow> verified verr user info,
            [VerifyCall (req_arg s req) a r prof]))"
  by (simp add: afterProfile_def Let_def split: option.splits prod.splits)

lemma afterExchange_eq:
  "afterExchange s req err a r =
     (if truthy err then (Fail err, [])
      else (case fst (loadUserProfile s a) of
              None \<Rightarrow> (Pending, snd (loadUserProfile s a))
            | Some (perr, prof) \<Rightarrow>
                (fst (afterProfile s req a r perr prof),
                 snd (loadUserProfile s a) @ snd (afterProfile s req a r perr prof))))"
  by (cases "loadUserProfile s a")
     (simp add: afterExchange_def Let_def split: option.splits prod.splits)

lemma authenticate_eq:
  "authenticate s req =
     (if error_indicator req then (Fail JUndefined, [])
      else if \<not> truthy (body req) then (Fail JUndefined, [])
      else
        (case prop_or (body req) (query req) ''code'' of
           Inl e \<Rightarrow> (Threw e, [])
         | Inr c \<Rightarrow>
             (case prop_or (body req) (query req) ''redirectUri'' of
                Inl e \<Rightarrow> (Threw e, [])
              | Inr u \<Rightarrow>
                  if \<not> truthy c then (Fail JUndefined, [])
                  else
                    (case getOAuthAccessToken s c (code_params u) of
                       None \<Rightarrow> (Pending, [ExchangeCall c (code_params u)])
                     | Some (err, a, r, res) \<Rightarrow>
                         (fst (afterExchange s req err a r),
                          ExchangeCall c (code_params u) # snd (afterExchange s req err a r))))))"
  by (simp add: authenticate_def exchangeAuthCode_def Let_def split: sum.splits option.splits prod.splits)

lemma load_no_verify: "filter is_verify (snd (loadUserProfile s tok)) = []"
  by (simp add: loadUserProfile_eq split: skip_setting.splits option.splits prod.splits)

lemma load_no_exchange: "filter is_exchange (snd (loadUserProfile s tok)) = []"
  by (simp add: loadUserProfile_eq split: skip_setting.splits option.splits prod.splits)

lemma afterExchange_no_exchange: "filter is_exchange (snd (afterExchange s req err a r)) = []"
  by (simp add: afterExchange_eq afterProfile_eq load_no_exchange split: option.splits prod.splits)


lemma afterExchange_exchange_free:
  "ExchangeCall c p \<notin> set (snd (afterExchange s req err a r))"
proof
  assume "ExchangeCall c p \<in> set (snd (afterExchange s req err a r))"
  then have "ExchangeCall c p \<in> set (filter is_exchange (snd (afterExchange s req err a r)))"
    by simp
  then show False
    by (simp add: afterExchange_no_exchange)
qed

lemma authenticate_reached:
  assumes "snd (authenticate s req) \<noteq> []"
  obtains c u where
    "\<not> error_indicator req" "truthy (body req)" "truthy c"
    "prop_or (body req) (query req) ''code'' = Inr c"
    "prop_or (body req) (query req) ''redirectUri'' = Inr u"
    "authenticate s req =
       (case getOAuthAccessToken s c (code_params u) of
          None \<Rightarrow> (Pending, [ExchangeCall c (code_params u)])
        | Some (err, a, r, res) \<Rightarrow>
            (fst (afterExchange s req err a r),
             ExchangeCall c (code_params u) # snd (afterExchange s req err a r)))"
proof -
  from assms obtain c u where
    1: "\<not> error_indicator req" "truthy (body req)" "truthy c"
       "prop_or (body req) (query req) ''code'' = Inr c"
       "prop_or (body req) (query req) ''redirectUri'' = Inr u"
    by (auto simp: authenticate_eq split: if_splits sum.splits)
  from 1 have "authenticate s req =
       (case getOAuthAccessToken s c (code_params u) of
          None \<Rightarrow> (Pending, [ExchangeCall c (code_params u)])
        | Some (err, a, r, res) \<Rightarrow>
            (fst (afterExchange s req err a r),
             ExchangeCall c (code_params u) # snd (afterExchange s req err a r)))"
    by (simp add: authenticate_eq)
  with 1 that show thesis by blast
qed

lemma authenticate_exchangeD:
  assumes "ExchangeCall c p \<in> set (snd (authenticate s req))"
  shows "\<not> error_indicator req \<and> truthy (body req) \<and> truthy c \<and>
         prop_or (body req) (query req) ''code'' = Inr c \<and>
         prop_or (body req) (query req) ''redirectUri'' = Inr (redirect_uri p) \<and>
         p = code_params (redirect_uri p) \<and>
         authenticate s req =
           (case getOAuthAccessToken s c p of
              None \<Rightarrow> (Pending, [ExchangeCall c p])
            | Some (err, a, r, res) \<Rightarrow>
                (fst (afterExchange s req err a r),
                 ExchangeCall c p # snd (afterExchange s req err a r)))"
proof -
  from assms have "snd (authenticate s req) \<noteq> []" by auto
  then obtain c' u where
    1: "\<not> error_indicator req" "truthy (body req)" "truthy c'"
       "prop_or (body req) (query req) ''code'' = Inr c'"
       "prop_or (body req) (query req) ''redirectUri'' = Inr u" and
    eq: "authenticate s req =
       (case getOAuthAccessToken s c' (code_params u) of
          None \<Rightarrow> (Pending, [ExchangeCall c' (code_params u)])
        | Some (err, a, r, res) \<Rightarrow>
            (fst (afterExchange s req err a r),
             ExchangeCall c' (code_params u) # snd (afterExchange s req err a r)))"
    by (rule authenticate_reached)
  from assms eq have cp: "c = c'" "p = code_params u"
    by (auto simp: afterExchange_exchange_free split: option.splits)
  from 1 eq show ?thesis unfolding cp by simp
qed

lemma authenticate_eventD:
  assumes "e \<in> set (snd (authenticate s req))" and "\<not> is_exchange e"
  obtains c p err a r res where
    "ExchangeCall c p \<in> set (snd (authenticate s req))"
    "getOAuthAccessToken s c p = Some (err, a, r, res)"
    "e \<in> set (snd (afterExchange s req err a r))"
    "authenticate s req =
       (fst (afterExchange s req err a r),
        ExchangeCall c p # snd (afterExchange s req err a r))"
proof -
  from assms have "snd (authenticate s req) \<noteq> []" by auto
  then obtain c u where
    eq: "authenticate s req =
       (case getOAuthAccessToken s c (code_params u) of
          None \<Rightarrow> (Pending, [ExchangeCall c (code_params u)])
        | Some (err, a, r, res) \<Rightarrow>
            (fst (afterExchange s req err a r),
             ExchangeCall c (code_params u) # snd (afterExchange s req err a r)))"
    by (rule authenticate_reached)
  show thesis
  proof (cases "getOAuthAccessToken s c (code_params u)")
    case None
    with eq assms show thesis by auto
  next
    case (Some x)
    obtain err a r res where x: "x = (err, a, r, res)" by (cases x)
    from eq Some x have au: "authenticate s req =
       (fst (afterExchange s req err a r),
        ExchangeCall c (code_params u) # snd (afterExchange s req err a r))"
      by simp
    with assms have "e \<in> set (snd (afterExchange s req err a r))" by auto
    with au Some x that [of c "code_params u" err a r res] show thesis by simp
  qed
qed

lemma afterExchange_verifyD:
  assumes "VerifyCall rq x y prof \<in> set (snd (afterExchange s req err a r))"
  shows "\<not> truthy err \<and> x = a \<and> y = r \<and> rq = req_arg s req \<and>
         (\<exists>perr. fst (loadUserProfile s a) = Some (perr, prof) \<and> \<not> truthy perr) \<and>
         fst (afterExchange s req err a r) =
           (case verify s rq x y prof of
              None \<Rightarrow> Pending
            | Some (verr, user, info) \<Rightarrow> verified verr user info)"
proof -
  have no: "VerifyCall rq x y prof \<notin> set (snd (loadUserProfile s a))"
    using load_no_verify [of s a] by (auto simp: filter_empty_conv)
  show ?thesis
    using assms no
    by (auto simp: afterExchange_eq afterProfile_eq split: if_splits option.splits)
qed

lemma load_getD: 
  "GetCall u t \<in> set (snd (loadUserProfile s a)) \<Longrightarrow>
     u = me_url \<and> t = a \<and> fst (loadUserProfile s a) = fst (userProfile s a)"
  by (auto simp: loadUserProfile_eq split: skip_setting.splits option.splits if_splits)

lemma afterExchange_getD:
  assumes "GetCall u t \<in> set (snd (afterExchange s req err a r))"
  shows "\<not> truthy err \<and> u = me_url \<and> t = a \<and>
         fst (loadUserProfile s a) = fst (userProfile s a)"
  using assms load_getD [of u t s a]
  by (auto simp: afterExchange_eq afterProfile_eq split: if_splits option.splits)

lemma userProfile_failure:
  assumes "oauth2_get s me_url tok = Some (e, raw, res)"
    and "truthy e \<or> JSON_parse s raw = None"
  shows "fst (userProfile s tok) =
           Some (if truthy e then InternalOAuthError ''failed to fetch user profile'' e
                 else JError SyntaxError, JUndefined)"
  using assms by (auto simp: userProfile_def)

lemma authenticate_after_exchange:
  assumes "ExchangeCall c p \<in> set (snd (authenticate s req))"
    and "getOAuthAccessToken s c p = Some (err, tok, rtok, res)"
  shows "authenticate s req =
           (fst (afterExchange s req err tok rtok),
            ExchangeCall c p # snd (afterExchange s req err tok rtok))"
  using authenticate_exchangeD [OF assms(1)] assms(2) by simp

lemma get_prop_defined:
  "v \<noteq> JUndefined \<Longrightarrow> v \<noteq> JNull \<Longrightarrow> \<exists>x. get_prop v k = Inr x"
  by (cases v) simp_all

lemma prop_or_total:
  assumes "a \<noteq> JUndefined" "a \<noteq> JNull" "b \<noteq> JUndefined" "b \<noteq> JNull"
  shows "\<exists>x. prop_or a b k = Inr x"
  using get_prop_defined [OF assms(1,2), of k] get_prop_defined [OF assms(3,4), of k]
  by (auto simp: prop_or_def)




section \<open>The scenarios, run\<close>

lemma scenario_run:
  "authenticate scenario_strategy scenario_request =
     (Success (JObj [(''id'', JNum 1)]) JUndefined,
      [ExchangeCall (JStr ''AQDx'') scenario_params,
       GetCall me_url (JStr ''A''),
       VerifyCall None (JStr ''A'') (JStr ''B'') jane_profile])"
  by (simp add: flow_defs scenario_defs)

lemma transport_failure_run:
  "authenticate transport_failure_strategy scenario_request =
     (Fail (InternalOAuthError ''failed to fetch user profile'' (JStr ''ECONNRESET'')),
      [ExchangeCall (JStr ''AQDx'') scenario_params, GetCall me_url (JStr ''A'')])"
  by (simp add: flow_defs scenario_defs transport_failure_strategy_def)

lemma unparsable_run:
  "authenticate unparsable_strategy scenario_request =
     (Fail (JError SyntaxError),
      [ExchangeCall (JStr ''AQDx'') scenario_params, GetCall me_url (JStr ''A'')])"
  by (simp add: flow_defs scenario_defs unparsable_strategy_def)

lemma html_run:
  "authenticate html_strategy scenario_request =
     (Fail (JError SyntaxError),
      [ExchangeCall (JStr ''AQDx'') scenario_params, GetCall me_url (JStr ''A'')])"
  by (simp add: flow_defs scenario_defs html_strategy_def)


lemma skip_error_run:
  "authenticate skip_error_strategy scenario_request =
     (Fail (JStr ''lookup failed''),
      [ExchangeCall (JStr ''AQDx'') scenario_params, SkipCallAsync (JStr ''A'')])"
  by (simp add: flow_defs scenario_defs skip_error_strategy_def)

lemma skip_timeout_run:
  "authenticate skip_timeout_strategy scenario_request =
     (Fail (JStr ''timeout''),
      [ExchangeCall (JStr ''AQDx'') scenario_params, SkipCallAsync (JStr ''A'')])"
  by (simp add: flow_defs scenario_defs skip_timeout_strategy_def)

lemma skip_true_run:
  "authenticate skip_true_strategy scenario_request =
     (Success (JObj [(''id'', JNum 1)]) JUndefined,
      [ExchangeCall (JStr ''AQDx'') scenario_params,
       VerifyCall None (JStr ''A'') (JStr ''B'') JUndefined])"
  by (simp add: flow_defs scenario_defs skip_true_strategy_def)

lemma skip_sync_run:
  "authenticate skip_sync_strategy scenario_request =
     (Success (JObj [(''id'', JNum 1)]) JUndefined,
      [ExchangeCall (JStr ''AQDx'') scenario_params, SkipCallSync,
       VerifyCall None (JStr ''A'') (JStr ''B'') JUndefined])"
  by (simp add: flow_defs scenario_defs skip_sync_strategy_def)

lemma skip_async_run:
  "authenticate skip_async_strategy scenario_request =
     (Success (JObj [(''id'', JNum 1)]) JUndefined,
      [ExchangeCall (JStr ''AQDx'') scenario_params, SkipCallAsync (JStr ''A''),
       VerifyCall None (JStr ''A'') (JStr ''B'') JUndefined])"
  by (simp add: flow_defs scenario_defs skip_async_strategy_def)

lemma rejecting_run:
  "authenticate rejecting_strategy scenario_request =
     (Fail (JObj [(''message'', JStr ''denied'')]),
      [ExchangeCall (JStr ''AQDx'') scenario_params,
       GetCall me_url (JStr ''A''),
       VerifyCall None (JStr ''A'') (JStr ''B'') jane_profile])"
  by (simp add: flow_defs scenario_defs rejecting_strategy_def)

lemma erroring_run:
  "authenticate erroring_strategy scenario_request =
     (Error (JStr ''database down''),
      [ExchangeCall (JStr ''AQDx'') scenario_params,
       GetCall me_url (JStr ''A''),
       VerifyCall None (JStr ''A'') (JStr ''B'') jane_profile])"
  by (simp add: flow_defs scenario_defs erroring_strategy_def)

lemma expired_run:
  "authenticate scenario_strategy expired_request =
     (Fail (JObj [(''statusCode'', JNum 400)]),
      [ExchangeCall (JStr ''expired'') (code_params JUndefined)])"
  by (simp add: flow_defs scenario_defs expired_request_def)

lemma query_code_run:
  "authenticate scenario_strategy query_code_request =
     (Success (JObj [(''id'', JNum 1)]) JUndefined,
      [ExchangeCall (JStr ''AQDx'') (code_params JUndefined),
       GetCall me_url (JStr ''A''),
       VerifyCall None (JStr ''A'') (JStr ''B'') jane_profile])"
  by (simp add: flow_defs scenario_defs query_code_request_def)

section \<open>Request validation\<close>

text \<open>
  C7. A request whose query carries an error indicator (line 68: the query is truthy and
  its \<^verbatim>\<open>error\<close> property is truthy), and a request without a body (line 74: the body is
  falsy), ends in \<^verbatim>\<open>fail()\<close> at once: the attempt makes no call at all, so neither the
  token exchange nor the profile fetch is invoked.
\<close>

theorem invalid_request_fails_immediately:
  "error_indicator req \<or> \<not> truthy (body req) \<Longrightarrow> authenticate s req = (Fail JUndefined, [])"
  by (auto simp: authenticate_def)

theorem invalid_request_fails_immediately_witness:
  "error_indicator denied_request \<and>
   authenticate scenario_strategy denied_request = (Fail JUndefined, []) \<and>
   \<not> truthy (body bodiless_request) \<and>
   authenticate scenario_strategy bodiless_request = (Fail JUndefined, [])"
proof -
  have h1: "error_indicator denied_request \<or> \<not> truthy (body denied_request)"
    by (simp add: denied_request_def scenario_request_def error_indicator_def)
  have h2: "error_indicator bodiless_request \<or> \<not> truthy (body bodiless_request)"
    by (simp add: bodiless_request_def)
  have d: "error_indicator denied_request"
    by (simp add: denied_request_def scenario_request_def error_indicator_def)
  have b: "\<not> truthy (body bodiless_request)"
    by (simp add: bodiless_request_def)
  from invalid_request_fails_immediately [OF h1, of scenario_strategy]
    invalid_request_fails_immediately [OF h2, of scenario_strategy] d b
  show ?thesis by blast
qed

text \<open>
  C8, as stated, fails in two ways. A body whose \<^verbatim>\<open>code\<close> field is there but empty does
  not provide the code: \<^verbatim>\<open>||\<close> at line 78 passes on to the query's \<^verbatim>\<open>code\<close>. And
  where a body field is missing and there is no query object, the read of the query
  throws instead of falling back: at line 78 for a body without a code, at line 80 for a
  body with a code and without a redirect URI.
\<close>

theorem code_extraction_counterexample:
  "\<not> error_indicator empty_code_request \<and> truthy (body empty_code_request) \<and>
   get_prop (body empty_code_request) ''code'' = Inr (JStr []) \<and>
   get_prop (query empty_code_request) ''code'' = Inr (JStr ''AQDx'') \<and>
   filter is_exchange (snd (authenticate scenario_strategy empty_code_request)) =
     [ExchangeCall (JStr ''AQDx'') (code_params JUndefined)] \<and>
   \<not> error_indicator queryless_redirect_request \<and>
   truthy (body queryless_redirect_request) \<and>
   get_prop (body queryless_redirect_request) ''code'' = Inr JUndefined \<and>
   query queryless_redirect_request = JUndefined \<and>
   authenticate scenario_strategy queryless_redirect_request = (Threw TypeError, []) \<and>
   \<not> error_indicator queryless_code_request \<and>
   truthy (body queryless_code_request) \<and>
   get_prop (body queryless_code_request) ''code'' = Inr (JStr ''AQDx'') \<and>
   get_prop (body queryless_code_request) ''redirectUri'' = Inr JUndefined \<and>
   query queryless_code_request = JUndefined \<and>
   authenticate scenario_strategy queryless_code_request = (Threw TypeError, [])"
  by (simp add: flow_defs scenario_defs queryless_redirect_request_def empty_code_request_def
      queryless_code_request_def)

text \<open>
  C8, amended. For every request that passes the error-indicator and body checks, the
  authorization code is the body's \<^verbatim>\<open>code\<close> when that is truthy (present and not
  empty), otherwise the query's \<^verbatim>\<open>code\<close>; the redirect URI likewise from
  \<^verbatim>\<open>redirectUri\<close>. When the body provides both, the token exchange is called once with
  the body's values, whatever the query is, also when there is no query object. When the
  query object exists (is neither \<^verbatim>\<open>undefined\<close> nor \<^verbatim>\<open>null\<close>): with a code, the token
  exchange is called once, with that code and that redirect URI; with no code from either
  source, the attempt ends in \<^verbatim>\<open>fail()\<close> and calls nothing.
\<close>

theorem code_from_body_then_query:
  assumes "\<not> error_indicator req" and "truthy (body req)"
  shows "\<exists>bc bu.
           get_prop (body req) ''code'' = Inr bc \<and>
           get_prop (body req) ''redirectUri'' = Inr bu \<and>
           (truthy bc \<and> truthy bu \<longrightarrow>
              filter is_exchange (snd (authenticate s req)) =
                [ExchangeCall bc (code_params bu)]) \<and>
           (query req \<noteq> JUndefined \<and> query req \<noteq> JNull \<longrightarrow>
              (\<exists>qc qu.
                 get_prop (query req) ''code'' = Inr qc \<and>
                 get_prop (query req) ''redirectUri'' = Inr qu \<and>
                 (let authCode = (if truthy bc then bc else qc);
                      redirectUri = (if truthy bu then bu else qu)
                  in if truthy authCode
                     then filter is_exchange (snd (authenticate s req)) =
                            [ExchangeCall authCode (code_params redirectUri)]
                     else authenticate s req = (Fail JUndefined, []))))"
proof -
  from assms(2) have "body req \<noteq> JUndefined" "body req \<noteq> JNull" by auto
  then obtain bc bu where b: "get_prop (body req) ''code'' = Inr bc"
    "get_prop (body req) ''redirectUri'' = Inr bu"
    using get_prop_defined by blast
  from assms b
  have both: "truthy bc \<and> truthy bu \<longrightarrow>
      filter is_exchange (snd (authenticate s req)) = [ExchangeCall bc (code_params bu)]"
    by (simp add: authenticate_eq prop_or_def afterExchange_no_exchange split: option.splits)
  have fall: "\<exists>qc qu.
      get_prop (query req) ''code'' = Inr qc \<and>
      get_prop (query req) ''redirectUri'' = Inr qu \<and>
      (let authCode = (if truthy bc then bc else qc);
           redirectUri = (if truthy bu then bu else qu)
       in if truthy authCode
          then filter is_exchange (snd (authenticate s req)) =
                 [ExchangeCall authCode (code_params redirectUri)]
          else authenticate s req = (Fail JUndefined, []))"
    if q: "query req \<noteq> JUndefined \<and> query req \<noteq> JNull"
  proof -
    from q obtain qc qu where qq: "get_prop (query req) ''code'' = Inr qc"
      "get_prop (query req) ''redirectUri'' = Inr qu"
      using get_prop_defined by blast
    from assms b qq
    have "(let authCode = (if truthy bc then bc else qc);
               redirectUri = (if truthy bu then bu else qu)
           in if truthy authCode
              then filter is_exchange (snd (authenticate s req)) =
                     [ExchangeCall authCode (code_params redirectUri)]
              else authenticate s req = (Fail JUndefined, []))"
      by (simp add: authenticate_eq prop_or_def Let_def afterExchange_no_exchange
          split: option.splits)
    with qq show ?thesis by blast
  qed
  from b both fall show ?thesis by blast
qed

theorem code_from_body_then_query_witness:
  "\<not> error_indicator queryless_full_request \<and> truthy (body queryless_full_request) \<and>
   query queryless_full_request = JNull \<and>
   truthy (JStr ''AQDx'') \<and> truthy (JStr ''https://app.example.com/cb'') \<and>
   filter is_exchange (snd (authenticate scenario_strategy queryless_full_request)) =
     [ExchangeCall (JStr ''AQDx'') (code_params (JStr ''https://app.example.com/cb''))] \<and>
   \<not> error_indicator scenario_request \<and> truthy (body scenario_request) \<and>
   query scenario_request \<noteq> JUndefined \<and> query scenario_request \<noteq> JNull \<and>
   filter is_exchange (snd (authenticate scenario_strategy scenario_request)) =
     [ExchangeCall (JStr ''AQDx'') (code_params (JStr ''https://app.example.com/cb''))] \<and>
   \<not> error_indicator query_code_request \<and> truthy (body query_code_request) \<and>
   query query_code_request \<noteq> JUndefined \<and> query query_code_request \<noteq> JNull \<and>
   filter is_exchange (snd (authenticate scenario_strategy query_code_request)) =
     [ExchangeCall (JStr ''AQDx'') (code_params JUndefined)] \<and>
   \<not> error_indicator no_code_request \<and> truthy (body no_code_request) \<and>
   query no_code_request \<noteq> JUndefined \<and> query no_code_request \<noteq> JNull \<and>
   authenticate scenario_strategy no_code_request = (Fail JUndefined, [])"
proof -
  have f: "\<not> error_indicator queryless_full_request" "truthy (body queryless_full_request)"
    by (simp_all add: queryless_full_request_def error_indicator_def)
  have fq: "query queryless_full_request = JNull"
    by (simp add: queryless_full_request_def)
  have a: "\<not> error_indicator scenario_request" "truthy (body scenario_request)"
    by (simp_all add: scenario_request_def error_indicator_def)
  have aq: "query scenario_request \<noteq> JUndefined \<and> query scenario_request \<noteq> JNull"
    by (simp add: scenario_request_def)
  have b: "\<not> error_indicator query_code_request" "truthy (body query_code_request)"
    by (simp_all add: query_code_request_def error_indicator_def)
  have bq: "query query_code_request \<noteq> JUndefined \<and> query query_code_request \<noteq> JNull"
    by (simp add: query_code_request_def)
  have c: "\<not> error_indicator no_code_request" "truthy (body no_code_request)"
    by (simp_all add: no_code_request_def error_indicator_def)
  have cq: "query no_code_request \<noteq> JUndefined \<and> query no_code_request \<noteq> JNull"
    by (simp add: no_code_request_def)
  from code_from_body_then_query [OF f, of scenario_strategy]
  have 0: "filter is_exchange (snd (authenticate scenario_strategy queryless_full_request)) =
     [ExchangeCall (JStr ''AQDx'') (code_params (JStr ''https://app.example.com/cb''))]"
    by (auto simp: queryless_full_request_def)
  from code_from_body_then_query [OF a, of scenario_strategy] aq
  have 1: "filter is_exchange (snd (authenticate scenario_strategy scenario_request)) =
     [ExchangeCall (JStr ''AQDx'') (code_params (JStr ''https://app.example.com/cb''))]"
    by (auto simp: scenario_request_def Let_def)
  from code_from_body_then_query [OF b, of scenario_strategy] bq
  have 2: "filter is_exchange (snd (authenticate scenario_strategy query_code_request)) =
     [ExchangeCall (JStr ''AQDx'') (code_params JUndefined)]"
    by (auto simp: query_code_request_def Let_def)
  from code_from_body_then_query [OF c, of scenario_strategy] cq
  have 3: "authenticate scenario_strategy no_code_request = (Fail JUndefined, [])"
    by (auto simp: no_code_request_def Let_def)
  from f fq a aq b bq c cq 0 1 2 3 show ?thesis by simp
qed

text \<open>
  C10. A request that has a body without a (truthy) code and whose query object is
  absent makes \<^verbatim>\<open>authenticate\<close> throw a TypeError at line 78, before any call, instead of
  signalling fail; and no attempt throws when the query object exists (is neither
  \<^verbatim>\<open>undefined\<close> nor \<^verbatim>\<open>null\<close>).
\<close>

theorem absent_query_throws:
  "(truthy (body req) \<and> get_prop (body req) ''code'' = Inr bc \<and> \<not> truthy bc \<and>
      query req = JUndefined \<longrightarrow> authenticate s req = (Threw TypeError, [])) \<and>
   (query req \<noteq> JUndefined \<and> query req \<noteq> JNull \<longrightarrow> fst (authenticate s req) \<noteq> Threw e)"
proof (intro conjI impI)
  assume "truthy (body req) \<and> get_prop (body req) ''code'' = Inr bc \<and> \<not> truthy bc \<and>
      query req = JUndefined"
  then show "authenticate s req = (Threw TypeError, [])"
    by (simp add: authenticate_def error_indicator_def prop_or_def)
next
  assume q: "query req \<noteq> JUndefined \<and> query req \<noteq> JNull"
  show "fst (authenticate s req) \<noteq> Threw e"
  proof (cases "truthy (body req)")
    case False
    then show ?thesis by (simp add: authenticate_eq)
  next
    case True
    then have "body req \<noteq> JUndefined" "body req \<noteq> JNull" by auto
    with q obtain x y where "prop_or (body req) (query req) ''code'' = Inr x"
      "prop_or (body req) (query req) ''redirectUri'' = Inr y"
      using prop_or_total by blast
    then show ?thesis
      by (simp add: authenticate_eq afterExchange_eq afterProfile_eq verified_def
          split: option.splits)
  qed
qed

theorem absent_query_throws_witness:
  "truthy (body queryless_request) \<and>
   get_prop (body queryless_request) ''code'' = Inr JUndefined \<and> \<not> truthy JUndefined \<and>
   query queryless_request = JUndefined \<and>
   authenticate scenario_strategy queryless_request = (Threw TypeError, []) \<and>
   query no_code_request \<noteq> JUndefined \<and> query no_code_request \<noteq> JNull \<and>
   fst (authenticate scenario_strategy no_code_request) \<noteq> Threw TypeError"
proof -
  have a: "truthy (body queryless_request) \<and>
     get_prop (body queryless_request) ''code'' = Inr JUndefined \<and> \<not> truthy JUndefined \<and>
     query queryless_request = JUndefined"
    by (simp add: queryless_request_def)
  have b: "query no_code_request \<noteq> JUndefined \<and> query no_code_request \<noteq> JNull"
    by (simp add: no_code_request_def)
  from absent_query_throws [of queryless_request JUndefined scenario_strategy TypeError] a
  have 1: "authenticate scenario_strategy queryless_request = (Threw TypeError, [])"
    by blast
  from absent_query_throws [of no_code_request JUndefined scenario_strategy TypeError] b
  have 2: "fst (authenticate scenario_strategy no_code_request) \<noteq> Threw TypeError"
    by blast
  from a b 1 2 show ?thesis by blast
qed

section \<open>Token exchange\<close>

text \<open>
  C4. Whenever an attempt calls the token exchange, it calls it with the extracted
  authorization code (\<^verbatim>\<open>req.body.code || req.query.code\<close>), with the extracted redirect
  URI (\<^verbatim>\<open>req.body.redirectUri || req.query.redirectUri\<close>) as \<^verbatim>\<open>redirect_uri\<close> and with
  the grant type \<^verbatim>\<open>authorization_code\<close>; and when the exchange completes with an error,
  the attempt ends in \<^verbatim>\<open>fail(err)\<close>, the exchange error being the info argument, after
  that one call.
\<close>

theorem exchange_arguments_and_failure:
  assumes "ExchangeCall c p \<in> set (snd (authenticate s req))"
  shows "prop_or (body req) (query req) ''code'' = Inr c \<and>
         prop_or (body req) (query req) ''redirectUri'' = Inr (redirect_uri p) \<and>
         grant_type p = ''authorization_code'' \<and>
         (getOAuthAccessToken s c p = Some (err, a, r, res) \<and> truthy err \<longrightarrow>
            authenticate s req = (Fail err, [ExchangeCall c p]))"
proof -
  note d = authenticate_exchangeD [OF assms]
  from d have p: "p = code_params (redirect_uri p)" by blast
  have g: "grant_type p = ''authorization_code''" by (subst p) simp
  from d have "getOAuthAccessToken s c p = Some (err, a, r, res) \<and> truthy err \<longrightarrow>
            authenticate s req = (Fail err, [ExchangeCall c p])"
    by (auto simp: afterExchange_eq)
  with d g show ?thesis by blast
qed

theorem exchange_arguments_and_failure_witness:
  "ExchangeCall (JStr ''expired'') (code_params JUndefined)
     \<in> set (snd (authenticate scenario_strategy expired_request)) \<and>
   getOAuthAccessToken scenario_strategy (JStr ''expired'') (code_params JUndefined) =
     Some (JObj [(''statusCode'', JNum 400)], JUndefined, JUndefined, JUndefined) \<and>
   truthy (JObj [(''statusCode'', JNum 400)]) \<and>
   prop_or (body expired_request) (query expired_request) ''code'' = Inr (JStr ''expired'') \<and>
   prop_or (body expired_request) (query expired_request) ''redirectUri'' = Inr JUndefined \<and>
   authenticate scenario_strategy expired_request =
     (Fail (JObj [(''statusCode'', JNum 400)]),
      [ExchangeCall (JStr ''expired'') (code_params JUndefined)])"
proof -
  have h: "ExchangeCall (JStr ''expired'') (code_params JUndefined)
     \<in> set (snd (authenticate scenario_strategy expired_request))"
    by (simp add: expired_run)
  have g: "getOAuthAccessToken scenario_strategy (JStr ''expired'') (code_params JUndefined) =
     Some (JObj [(''statusCode'', JNum 400)], JUndefined, JUndefined, JUndefined) \<and>
     truthy (JObj [(''statusCode'', JNum 400)])"
    by (simp add: scenario_strategy_def)
  from exchange_arguments_and_failure [OF h,
      of "JObj [(''statusCode'', JNum 400)]" JUndefined JUndefined JUndefined] h g
  show ?thesis by simp
qed

section \<open>Verification\<close>

text \<open>
  C3. Whenever an attempt calls the verification callback and the callback completes with
  \<^verbatim>\<open>(err, user, info)\<close>: if \<^verbatim>\<open>err\<close> is present (truthy) the attempt signals
  \<^verbatim>\<open>error(err)\<close>; if \<^verbatim>\<open>err\<close> is absent and \<^verbatim>\<open>user\<close> is falsy it signals
  \<^verbatim>\<open>fail(info)\<close>; otherwise it signals \<^verbatim>\<open>success(user, info)\<close>.
\<close>

theorem verification_result_mapping:
  assumes "VerifyCall rq x y prof \<in> set (snd (authenticate s req))"
    and "verify s rq x y prof = Some (err, user, info)"
  shows "fst (authenticate s req) =
           (if truthy err then Error err
            else if \<not> truthy user then Fail info
            else Success user info)"
proof -
  obtain c p e a r where
    "ExchangeCall c p \<in> set (snd (authenticate s req))" and
    ev: "VerifyCall rq x y prof \<in> set (snd (afterExchange s req e a r))" and
    au: "authenticate s req =
           (fst (afterExchange s req e a r), ExchangeCall c p # snd (afterExchange s req e a r))"
    using assms(1) by (rule authenticate_eventD) (simp, blast)
  from afterExchange_verifyD [OF ev] assms(2)
  have "fst (afterExchange s req e a r) = verified err user info" by simp
  with au show ?thesis by (simp add: verified_def)
qed

theorem verification_result_mapping_witness:
  "VerifyCall None (JStr ''A'') (JStr ''B'') jane_profile
     \<in> set (snd (authenticate rejecting_strategy scenario_request)) \<and>
   verify rejecting_strategy None (JStr ''A'') (JStr ''B'') jane_profile =
     Some (JNull, JBool False, JObj [(''message'', JStr ''denied'')]) \<and>
   fst (authenticate rejecting_strategy scenario_request) =
     Fail (JObj [(''message'', JStr ''denied'')]) \<and>
   VerifyCall None (JStr ''A'') (JStr ''B'') jane_profile
     \<in> set (snd (authenticate scenario_strategy scenario_request)) \<and>
   verify scenario_strategy None (JStr ''A'') (JStr ''B'') jane_profile =
     Some (JNull, JObj [(''id'', JNum 1)], JUndefined) \<and>
   fst (authenticate scenario_strategy scenario_request) =
     Success (JObj [(''id'', JNum 1)]) JUndefined \<and>
   VerifyCall None (JStr ''A'') (JStr ''B'') jane_profile
     \<in> set (snd (authenticate erroring_strategy scenario_request)) \<and>
   verify erroring_strategy None (JStr ''A'') (JStr ''B'') jane_profile =
     Some (JStr ''database down'', JUndefined, JUndefined) \<and>
   fst (authenticate erroring_strategy scenario_request) = Error (JStr ''database down'')"
proof -
  have a1: "VerifyCall None (JStr ''A'') (JStr ''B'') jane_profile
     \<in> set (snd (authenticate rejecting_strategy scenario_request))"
    by (simp add: rejecting_run)
  have a2: "verify rejecting_strategy None (JStr ''A'') (JStr ''B'') jane_profile =
     Some (JNull, JBool False, JObj [(''message'', JStr ''denied'')])"
    by (simp add: rejecting_strategy_def scenario_strategy_def)
  have b1: "VerifyCall None (JStr ''A'') (JStr ''B'') jane_profile
     \<in> set (snd (authenticate scenario_strategy scenario_request))"
    by (simp add: scenario_run)
  have b2: "verify scenario_strategy None (JStr ''A'') (JStr ''B'') jane_profile =
     Some (JNull, JObj [(''id'', JNum 1)], JUndefined)"
    by (simp add: scenario_strategy_def)
  have c1: "VerifyCall None (JStr ''A'') (JStr ''B'') jane_profile
     \<in> set (snd (authenticate erroring_strategy scenario_request))"
    by (simp add: erroring_run)
  have c2: "verify erroring_strategy None (JStr ''A'') (JStr ''B'') jane_profile =
     Some (JStr ''database down'', JUndefined, JUndefined)"
    by (simp add: erroring_strategy_def scenario_strategy_def)
  from verification_result_mapping [OF a1 a2] verification_result_mapping [OF b1 b2]
    verification_result_mapping [OF c1 c2] a1 a2 b1 b2 c1 c2
  show ?thesis by simp
qed

section \<open>Profile loading\<close>

text \<open>
  C5. When the identity endpoint answers with the body
  \<^verbatim>\<open>{"id":"42","name":"Jane Doe","email":"jane@example.com"}\<close> and \<^verbatim>\<open>JSON.parse\<close> gives
  the object with these three properties, \<^verbatim>\<open>userProfile\<close> completes with no error and
  the profile whose \<^verbatim>\<open>provider\<close> is \<^verbatim>\<open>facebook\<close>, \<^verbatim>\<open>id\<close> is \<^verbatim>\<open>42\<close>,
  \<^verbatim>\<open>displayName\<close> is \<^verbatim>\<open>Jane Doe\<close>, \<^verbatim>\<open>name\<close> has \<^verbatim>\<open>familyName\<close> and
  \<^verbatim>\<open>givenName\<close> both \<^verbatim>\<open>undefined\<close>, \<^verbatim>\<open>emails\<close> is the one-entry array with value
  \<^verbatim>\<open>jane@example.com\<close>, and to which the raw body and the parsed object are attached
  unchanged as \<^verbatim>\<open>_raw\<close> and \<^verbatim>\<open>_json\<close>.
\<close>

theorem jane_profile_normalized:
  assumes "oauth2_get s me_url tok = Some (err, JStr jane_body, res)"
    and "\<not> truthy err"
    and "JSON_parse s (JStr jane_body) = Some jane_json"
  shows "fst (userProfile s tok) =
           Some (JNull,
              JObj [(''provider'', JStr ''facebook''),
                    (''id'', JStr ''42''),
                    (''displayName'', JStr ''Jane Doe''),
                    (''name'', JObj [(''familyName'', JUndefined), (''givenName'', JUndefined)]),
                    (''emails'', JArr [JObj [(''value'', JStr ''jane@example.com'')]]),
                    (''_raw'', JStr jane_body),
                    (''_json'', jane_json)])"
  using assms by (simp add: userProfile_def make_profile_def jane_json_def)

theorem jane_profile_normalized_witness:
  "oauth2_get scenario_strategy me_url (JStr ''A'') = Some (JNull, JStr jane_body, JUndefined) \<and>
   \<not> truthy JNull \<and>
   JSON_parse scenario_strategy (JStr jane_body) = Some jane_json \<and>
   fst (userProfile scenario_strategy (JStr ''A'')) =
     Some (JNull,
        JObj [(''provider'', JStr ''facebook''),
              (''id'', JStr ''42''),
              (''displayName'', JStr ''Jane Doe''),
              (''name'', JObj [(''familyName'', JUndefined), (''givenName'', JUndefined)]),
              (''emails'', JArr [JObj [(''value'', JStr ''jane@example.com'')]]),
              (''_raw'', JStr jane_body),
              (''_json'', jane_json)])"
proof -
  have h1: "oauth2_get scenario_strategy me_url (JStr ''A'') =
      Some (JNull, JStr jane_body, JUndefined)"
    by (simp add: scenario_strategy_def)
  have h2: "\<not> truthy JNull" by simp
  have h3: "JSON_parse scenario_strategy (JStr jane_body) = Some jane_json"
    by (simp add: scenario_strategy_def scenario_parse_def)
  from jane_profile_normalized [OF h1 h2 h3] h1 h2 h3 show ?thesis by blast
qed

text \<open>
  C1, as stated, fails: when the identity endpoint returns a body that is not JSON, the
  profile load completes with the SyntaxError and the attempt signals \<^verbatim>\<open>fail\<close> with it
  (line 91), not \<^verbatim>\<open>error\<close>.
\<close>

theorem profile_failure_is_not_error_counterexample:
  "fst (userProfile unparsable_strategy (JStr ''A'')) = Some (JError SyntaxError, JUndefined) \<and>
   GetCall me_url (JStr ''A'') \<in> set (snd (authenticate unparsable_strategy scenario_request)) \<and>
   fst (authenticate unparsable_strategy scenario_request) = Fail (JError SyntaxError) \<and>
   fst (authenticate unparsable_strategy scenario_request) \<noteq> Error (JError SyntaxError)"
  by (simp add: unparsable_run)
     (simp add: userProfile_def unparsable_strategy_def scenario_strategy_def scenario_parse_def
        jane_body_def)

text \<open>
  C1, amended. For every attempt in which the identity endpoint is fetched and the profile
  load fails, by a transport failure of the GET or by the body failing to parse, the attempt
  signals \<^verbatim>\<open>fail\<close> carrying that failure as info (the transport error wrapped in an
  InternalOAuthError \<^verbatim>\<open>failed to fetch user profile\<close>, or the SyntaxError), and the
  verification callback is never invoked.
\<close>

theorem profile_failure_signals_fail:
  assumes "GetCall url tok \<in> set (snd (authenticate s req))"
    and "oauth2_get s url tok = Some (e, raw, res)"
    and "truthy e \<or> JSON_parse s raw = None"
  shows "fst (authenticate s req) =
           Fail (if truthy e then InternalOAuthError ''failed to fetch user profile'' e
                 else JError SyntaxError) \<and>
         filter is_verify (snd (authenticate s req)) = []"
proof -
  obtain c p err a r where
    "ExchangeCall c p \<in> set (snd (authenticate s req))" and
    ev: "GetCall url tok \<in> set (snd (afterExchange s req err a r))" and
    au: "authenticate s req =
           (fst (afterExchange s req err a r), ExchangeCall c p # snd (afterExchange s req err a r))"
    using assms(1) by (rule authenticate_eventD) (simp, blast)
  from afterExchange_getD [OF ev]
  have ne: "\<not> truthy err" and u: "url = me_url" and t: "tok = a"
    and ld: "fst (loadUserProfile s a) = fst (userProfile s a)"
    by simp_all
  let ?f = "if truthy e then InternalOAuthError ''failed to fetch user profile'' e
            else JError SyntaxError"
  from assms(2,3) u t have up: "fst (userProfile s a) = Some (?f, JUndefined)"
    using userProfile_failure [of s a e raw res] by simp
  have tf: "truthy ?f" by simp
  from ne ld up tf
  have ae: "afterExchange s req err a r = (Fail ?f, snd (loadUserProfile s a))"
    by (simp add: afterExchange_eq afterProfile_eq)
  from au ae show ?thesis
    by (simp add: load_no_verify)
qed

theorem profile_failure_signals_fail_witness:
  "GetCall me_url (JStr ''A'') \<in> set (snd (authenticate transport_failure_strategy scenario_request)) \<and>
   oauth2_get transport_failure_strategy me_url (JStr ''A'') =
     Some (JStr ''ECONNRESET'', JUndefined, JUndefined) \<and>
   truthy (JStr ''ECONNRESET'') \<and>
   fst (authenticate transport_failure_strategy scenario_request) =
     Fail (InternalOAuthError ''failed to fetch user profile'' (JStr ''ECONNRESET'')) \<and>
   filter is_verify (snd (authenticate transport_failure_strategy scenario_request)) = [] \<and>
   GetCall me_url (JStr ''A'') \<in> set (snd (authenticate html_strategy scenario_request)) \<and>
   oauth2_get html_strategy me_url (JStr ''A'') =
     Some (JNull, JStr ''<html>oops</html>'', JUndefined) \<and>
   JSON_parse html_strategy (JStr ''<html>oops</html>'') = None \<and>
   fst (authenticate html_strategy scenario_request) = Fail (JError SyntaxError) \<and>
   filter is_verify (snd (authenticate html_strategy scenario_request)) = []"
proof -
  have a1: "GetCall me_url (JStr ''A'')
      \<in> set (snd (authenticate transport_failure_strategy scenario_request))"
    by (simp add: transport_failure_run)
  have a2: "oauth2_get transport_failure_strategy me_url (JStr ''A'') =
     Some (JStr ''ECONNRESET'', JUndefined, JUndefined)"
    by (simp add: transport_failure_strategy_def)
  have a3: "truthy (JStr ''ECONNRESET'')" by simp
  have b1: "GetCall me_url (JStr ''A'') \<in> set (snd (authenticate html_strategy scenario_request))"
    by (simp add: html_run)
  have b2: "oauth2_get html_strategy me_url (JStr ''A'') =
     Some (JNull, JStr ''<html>oops</html>'', JUndefined)"
    by (simp add: html_strategy_def)
  have b3: "JSON_parse html_strategy (JStr ''<html>oops</html>'') = None"
    by (simp add: html_strategy_def scenario_strategy_def scenario_parse_def jane_body_def)
  from profile_failure_signals_fail [OF a1 a2 disjI1 [OF a3]]
    profile_failure_signals_fail [OF b1 b2 disjI2 [OF b3]] a1 a2 a3 b1 b2 b3
  show ?thesis by simp
qed

text \<open>
  C2, as stated, fails: when the two-argument skip predicate completes with an error, the
  attempt signals \<^verbatim>\<open>fail\<close> with that error (lines 183 and 91), not \<^verbatim>\<open>error\<close>.
\<close>

theorem skip_error_is_not_error_counterexample:
  "skipUserProfile skip_error_strategy =
     SkipFunction 2 JUndefined (\<lambda>t. Some (JStr ''lookup failed'', JUndefined)) \<and>
   truthy (JStr ''lookup failed'') \<and>
   authenticate skip_error_strategy scenario_request =
     (Fail (JStr ''lookup failed''),
      [ExchangeCall (JStr ''AQDx'') scenario_params, SkipCallAsync (JStr ''A'')]) \<and>
   fst (authenticate skip_error_strategy scenario_request) \<noteq> Error (JStr ''lookup failed'')"
  by (simp add: skip_error_run) (simp add: skip_error_strategy_def)

text \<open>
  C2, amended. For every attempt whose token exchange succeeded and whose configured skip
  setting is a function of two (or more) arguments, the function is called with the access
  token and a completion callback right after the exchange, and if it completes with an
  error, the attempt signals \<^verbatim>\<open>fail\<close> carrying that error as info, with no further call.
\<close>

theorem async_skip_error_signals_fail:
  assumes "ExchangeCall c p \<in> set (snd (authenticate s req))"
    and "getOAuthAccessToken s c p = Some (err, tok, rtok, res)"
    and "\<not> truthy err"
    and "skipUserProfile s = SkipFunction n ret complete"
    and "1 < n"
  shows "take 2 (snd (authenticate s req)) = [ExchangeCall c p, SkipCallAsync tok] \<and>
         (complete tok = Some (serr, skip) \<and> truthy serr \<longrightarrow>
            authenticate s req = (Fail serr, [ExchangeCall c p, SkipCallAsync tok]))"
proof -
  note au = authenticate_after_exchange [OF assms(1,2)]
  from assms(3-5) have "take 1 (snd (afterExchange s req err tok rtok)) = [SkipCallAsync tok]"
    by (simp add: afterExchange_eq afterProfile_eq loadUserProfile_eq split: option.splits)
  with au have 1: "take 2 (snd (authenticate s req)) = [ExchangeCall c p, SkipCallAsync tok]"
    by (simp add: numeral_2_eq_2)
  from assms(3-5) have "complete tok = Some (serr, skip) \<and> truthy serr \<longrightarrow>
      afterExchange s req err tok rtok = (Fail serr, [SkipCallAsync tok])"
    by (simp add: afterExchange_eq afterProfile_eq loadUserProfile_eq)
  with au 1 show ?thesis by simp
qed

theorem async_skip_error_signals_fail_witness:
  "ExchangeCall (JStr ''AQDx'') scenario_params
     \<in> set (snd (authenticate skip_timeout_strategy scenario_request)) \<and>
   getOAuthAccessToken skip_timeout_strategy (JStr ''AQDx'') scenario_params =
     Some (JNull, JStr ''A'', JStr ''B'', JObj []) \<and>
   \<not> truthy JNull \<and>
   skipUserProfile skip_timeout_strategy =
     SkipFunction 2 JUndefined (\<lambda>t. Some (JStr ''timeout'', JUndefined)) \<and>
   (1::nat) < 2 \<and> truthy (JStr ''timeout'') \<and>
   take 2 (snd (authenticate skip_timeout_strategy scenario_request)) =
     [ExchangeCall (JStr ''AQDx'') scenario_params, SkipCallAsync (JStr ''A'')] \<and>
   authenticate skip_timeout_strategy scenario_request =
     (Fail (JStr ''timeout''),
      [ExchangeCall (JStr ''AQDx'') scenario_params, SkipCallAsync (JStr ''A'')])"
proof -
  have h1: "ExchangeCall (JStr ''AQDx'') scenario_params
     \<in> set (snd (authenticate skip_timeout_strategy scenario_request))"
    by (simp add: skip_timeout_run)
  have h2: "getOAuthAccessToken skip_timeout_strategy (JStr ''AQDx'') scenario_params =
     Some (JNull, JStr ''A'', JStr ''B'', JObj [])"
    by (simp add: skip_timeout_strategy_def scenario_strategy_def)
  have h3: "\<not> truthy JNull" by simp
  have h4: "skipUserProfile skip_timeout_strategy =
     SkipFunction 2 JUndefined (\<lambda>t. Some (JStr ''timeout'', JUndefined))"
    by (simp add: skip_timeout_strategy_def)
  have h5: "(1::nat) < 2" by simp
  from async_skip_error_signals_fail [OF h1 h2 h3 h4 h5, of "JStr ''timeout''" JUndefined]
    h1 h2 h3 h4 h5
  show ?thesis by simp
qed

text \<open>
  C9. For every attempt whose token exchange succeeded, when the skip setting is the
  boolean \<^verbatim>\<open>true\<close>, or a function of at most one argument that returns \<^verbatim>\<open>true\<close> when
  called with no arguments, or a function of two (or more) arguments that completes its
  callback with \<^verbatim>\<open>(null, true)\<close>: the identity endpoint is not fetched, and the
  verification callback is called once, with \<^verbatim>\<open>undefined\<close> as the profile.
\<close>

theorem skipped_profile_is_undefined:
  assumes "ExchangeCall c p \<in> set (snd (authenticate s req))"
    and "getOAuthAccessToken s c p = Some (err, tok, rtok, res)"
    and "\<not> truthy err"
    and "skipUserProfile s = SkipValue (JBool True) \<or>
         (\<exists>n complete. n \<le> 1 \<and> skipUserProfile s = SkipFunction n (JBool True) complete) \<or>
         (\<exists>n ret complete. 1 < n \<and> skipUserProfile s = SkipFunction n ret complete \<and>
                            complete tok = Some (JNull, JBool True))"
  shows "filter is_get (snd (authenticate s req)) = [] \<and>
         filter is_verify (snd (authenticate s req)) =
           [VerifyCall (req_arg s req) tok rtok JUndefined]"
proof -
  note au = authenticate_after_exchange [OF assms(1,2)]
  from assms(4) have ld: "fst (loadUserProfile s tok) = Some (JNull, JUndefined) \<and>
      filter is_get (snd (loadUserProfile s tok)) = [] "
    by (auto simp: loadUserProfile_eq)
  with assms(3) au show ?thesis
    by (simp add: afterExchange_eq afterProfile_eq load_no_verify)
qed

theorem skipped_profile_is_undefined_witness:
  "ExchangeCall (JStr ''AQDx'') scenario_params
     \<in> set (snd (authenticate skip_true_strategy scenario_request)) \<and>
   getOAuthAccessToken skip_true_strategy (JStr ''AQDx'') scenario_params =
     Some (JNull, JStr ''A'', JStr ''B'', JObj []) \<and>
   skipUserProfile skip_true_strategy = SkipValue (JBool True) \<and>
   filter is_get (snd (authenticate skip_true_strategy scenario_request)) = [] \<and>
   filter is_verify (snd (authenticate skip_true_strategy scenario_request)) =
     [VerifyCall None (JStr ''A'') (JStr ''B'') JUndefined] \<and>
   ExchangeCall (JStr ''AQDx'') scenario_params
     \<in> set (snd (authenticate skip_sync_strategy scenario_request)) \<and>
   getOAuthAccessToken skip_sync_strategy (JStr ''AQDx'') scenario_params =
     Some (JNull, JStr ''A'', JStr ''B'', JObj []) \<and>
   skipUserProfile skip_sync_strategy = SkipFunction 1 (JBool True) (\<lambda>t. None) \<and>
   filter is_get (snd (authenticate skip_sync_strategy scenario_request)) = [] \<and>
   filter is_verify (snd (authenticate skip_sync_strategy scenario_request)) =
     [VerifyCall None (JStr ''A'') (JStr ''B'') JUndefined] \<and>
   ExchangeCall (JStr ''AQDx'') scenario_params
     \<in> set (snd (authenticate skip_async_strategy scenario_request)) \<and>
   getOAuthAccessToken skip_async_strategy (JStr ''AQDx'') scenario_params =
     Some (JNull, JStr ''A'', JStr ''B'', JObj []) \<and>
   skipUserProfile skip_async_strategy =
     SkipFunction 2 JUndefined (\<lambda>t. Some (JNull, JBool True)) \<and>
   filter is_get (snd (authenticate skip_async_strategy scenario_request)) = [] \<and>
   filter is_verify (snd (authenticate skip_async_strategy scenario_request)) =
     [VerifyCall None (JStr ''A'') (JStr ''B'') JUndefined]"
proof -
  have n: "\<not> truthy JNull" by simp
  have a1: "ExchangeCall (JStr ''AQDx'') scenario_params
     \<in> set (snd (authenticate skip_true_strategy scenario_request))"
    by (simp add: skip_true_run)
  have a2: "getOAuthAccessToken skip_true_strategy (JStr ''AQDx'') scenario_params =
     Some (JNull, JStr ''A'', JStr ''B'', JObj [])"
    by (simp add: skip_true_strategy_def scenario_strategy_def)
  have a3: "skipUserProfile skip_true_strategy = SkipValue (JBool True)"
    by (simp add: skip_true_strategy_def)
  have a4: "\<not> truthy (passReqToCallback skip_true_strategy)"
    by (simp add: skip_true_strategy_def scenario_strategy_def)
  have b1: "ExchangeCall (JStr ''AQDx'') scenario_params
     \<in> set (snd (authenticate skip_sync_strategy scenario_request))"
    by (simp add: skip_sync_run)
  have b2: "getOAuthAccessToken skip_sync_strategy (JStr ''AQDx'') scenario_params =
     Some (JNull, JStr ''A'', JStr ''B'', JObj [])"
    by (simp add: skip_sync_strategy_def scenario_strategy_def)
  have b3: "skipUserProfile skip_sync_strategy = SkipFunction 1 (JBool True) (\<lambda>t. None)"
    by (simp add: skip_sync_strategy_def)
  have b4: "\<not> truthy (passReqToCallback skip_sync_strategy)"
    by (simp add: skip_sync_strategy_def scenario_strategy_def)
  have c1: "ExchangeCall (JStr ''AQDx'') scenario_params
     \<in> set (snd (authenticate skip_async_strategy scenario_request))"
    by (simp add: skip_async_run)
  have c2: "getOAuthAccessToken skip_async_strategy (JStr ''AQDx'') scenario_params =
     Some (JNull, JStr ''A'', JStr ''B'', JObj [])"
    by (simp add: skip_async_strategy_def scenario_strategy_def)
  have c3: "skipUserProfile skip_async_strategy =
     SkipFunction 2 JUndefined (\<lambda>t. Some (JNull, JBool True))"
    by (simp add: skip_async_strategy_def)
  have c4: "\<not> truthy (passReqToCallback skip_async_strategy)"
    by (simp add: skip_async_strategy_def scenario_strategy_def)
  have a: "filter is_get (snd (authenticate skip_true_strategy scenario_request)) = [] \<and>
     filter is_verify (snd (authenticate skip_true_strategy scenario_request)) =
       [VerifyCall None (JStr ''A'') (JStr ''B'') JUndefined]"
    using skipped_profile_is_undefined [OF a1 a2 n] a3 a4 by simp
  have b: "filter is_get (snd (authenticate skip_sync_strategy scenario_request)) = [] \<and>
     filter is_verify (snd (authenticate skip_sync_strategy scenario_request)) =
       [VerifyCall None (JStr ''A'') (JStr ''B'') JUndefined]"
    using skipped_profile_is_undefined [OF b1 b2 n] b3 b4 by simp
  have c: "filter is_get (snd (authenticate skip_async_strategy scenario_request)) = [] \<and>
     filter is_verify (snd (authenticate skip_async_strategy scenario_request)) =
       [VerifyCall None (JStr ''A'') (JStr ''B'') JUndefined]"
    using skipped_profile_is_undefined [OF c1 c2 n] c3 c4 by simp
  from a b c a1 a2 a3 b1 b2 b3 c1 c2 c3 show ?thesis by blast
qed




end
